theory Spec2Isabelle
  imports Main
begin

section \<open>Values of the host language\<close>

text \<open>
  The module \<^verbatim>\<open>src/index.js\<close> is glue over the browser's \<^verbatim>\<open>fetch\<close>, \<^verbatim>\<open>Headers\<close>,
  \<^verbatim>\<open>URLSearchParams\<close>, \<^verbatim>\<open>JSON.stringify\<close> and \<^verbatim>\<open>decodeURI\<close>. The embedding keeps the
  module's own control flow and models the part of each platform operation the module
  relies on, following the ECMAScript, URL and Fetch standards.

  Strings are byte strings holding well-formed UTF-8 (the byte sequence that the URL
  serializer percent-encodes). Values are plain data: \<^verbatim>\<open>undefined\<close>, \<^verbatim>\<open>null\<close>,
  booleans, numbers, strings, arrays and objects without cycles. Numbers are the
  integers that JavaScript prints in plain decimal, those of magnitude below
  \<open>10\<^sup>2\<^sup>1\<close>; \<^verbatim>\<open>NaN\<close>, infinities, fractions and larger numbers are outside the model,
  and so are BigInt, Symbol and function values and objects with a cycle. On some of
  these the platform throws where the operations below are total: \<^verbatim>\<open>JSON.stringify\<close>
  on a BigInt or a cycle, the string conversion of \<^verbatim>\<open>URLSearchParams\<close> on a Symbol.
  Such an exception, like the one of \<^verbatim>\<open>Headers.append\<close> that is modelled, leaves the
  calling function before it reaches \<^verbatim>\<open>fetch\<close>.
\<close>

datatype jsval =
    JUndefined
  | JNull
  | JBool bool
  | JNum int
  | JStr string
  | JArr "jsval list"
  | JObj "(string \<times> jsval) list"

text \<open>An object is the list of its own enumerable properties, in the order in which
  \<^verbatim>\<open>Object.keys\<close> enumerates them.\<close>

definition Object_keys :: "(string \<times> 'a) list \<Rightarrow> string list" where
  "Object_keys obj = map fst obj"

text \<open>ToBoolean: what \<^verbatim>\<open>if (x)\<close>, \<^verbatim>\<open>x && y\<close> and \<^verbatim>\<open>x || y\<close> test.\<close>

fun truthy :: "jsval \<Rightarrow> bool" where
  "truthy JUndefined = False"
| "truthy JNull = False"
| "truthy (JBool b) = b"
| "truthy (JNum n) = (n \<noteq> 0)"
| "truthy (JStr s) = (s \<noteq> [])"
| "truthy (JArr xs) = True"
| "truthy (JObj kvs) = True"

text \<open>\<^verbatim>\<open>Array.prototype.join\<close> on strings.\<close>

fun join :: "string \<Rightarrow> string list \<Rightarrow> string" where
  "join sep [] = []"
| "join sep [x] = x"
| "join sep (x # y # ys) = x @ sep @ join sep (y # ys)"

definition digit_char :: "nat \<Rightarrow> char" where
  "digit_char d = ''0123456789'' ! d"

function string_of_nat :: "nat \<Rightarrow> string" where
  "string_of_nat n =
     (if n < 10 then [digit_char n]
      else string_of_nat (n div 10) @ [digit_char (n mod 10)])"
  by pat_completeness auto
termination
  by (relation "measure id") auto

declare string_of_nat.simps [simp del]

text \<open>Number::toString on an integer of magnitude below \<open>10\<^sup>2\<^sup>1\<close>: plain decimal.\<close>

definition string_of_int :: "int \<Rightarrow> string" where
  "string_of_int i =
     (if i < 0 then CHR ''-'' # string_of_nat (nat (- i)) else string_of_nat (nat i))"

text \<open>ToString. An array is joined with commas, \<^verbatim>\<open>undefined\<close> and \<^verbatim>\<open>null\<close> elements
  giving the empty string; a plain object gives \<^verbatim>\<open>[object Object]\<close>.\<close>

fun ToString :: "jsval \<Rightarrow> string"
  and ToString_elems :: "jsval list \<Rightarrow> string list" where
  "ToString JUndefined = ''undefined''"
| "ToString JNull = ''null''"
| "ToString (JBool b) = (if b then ''true'' else ''false'')"
| "ToString (JNum n) = string_of_int n"
| "ToString (JStr s) = s"
| "ToString (JArr xs) = join '','' (ToString_elems xs)"
| "ToString (JObj kvs) = ''[object Object]''"
| "ToString_elems [] = []"
| "ToString_elems (x # xs) =
     (if x = JUndefined \<or> x = JNull then [] else ToString x) # ToString_elems xs"

section \<open>Query formatting (lines 7-14)\<close>

text \<open>
  \<^verbatim>\<open>new URLSearchParams(json)\<close> on a record takes every own enumerable property, in
  order, and converts key and value to strings with ToString. \<^verbatim>\<open>toString()\<close> is the
  \<^verbatim>\<open>application/x-www-form-urlencoded\<close> serializer of the URL standard: a space becomes
  \<^verbatim>\<open>+\<close>, the ASCII alphanumerics and \<^verbatim>\<open>* - . _\<close> stay, every other byte becomes
  \<^verbatim>\<open>%XX\<close> in upper-case hexadecimal; name and value are joined with \<^verbatim>\<open>=\<close> and the
  pairs with \<^verbatim>\<open>&\<close>.
\<close>

definition hex_digit :: "nat \<Rightarrow> char" where
  "hex_digit d = ''0123456789ABCDEF'' ! d"

definition percent_byte :: "char \<Rightarrow> string" where
  "percent_byte c =
     [CHR ''%'', hex_digit (of_char c div 16), hex_digit (of_char c mod 16)]"

definition is_alnum :: "char \<Rightarrow> bool" where
  "is_alnum c =
     (let n = (of_char c :: nat)
      in (48 \<le> n \<and> n \<le> 57) \<or> (65 \<le> n \<and> n \<le> 90) \<or> (97 \<le> n \<and> n \<le> 122))"

definition urlencode_char :: "char \<Rightarrow> string" where
  "urlencode_char c =
     (if c = CHR '' '' then ''+''
      else if is_alnum c \<or> List.member ''*-._'' c then [c]
      else percent_byte c)"

definition urlencode :: "string \<Rightarrow> string" where
  "urlencode s = concat (map urlencode_char s)"

definition URLSearchParams :: "(string \<times> jsval) list \<Rightarrow> (string \<times> string) list" where
  "URLSearchParams json = map (\<lambda>(k, v). (k, ToString v)) json"

definition URLSearchParams_toString :: "(string \<times> string) list \<Rightarrow> string" where
  "URLSearchParams_toString ps =
     join ''&'' (map (\<lambda>(k, v). urlencode k @ ''='' @ urlencode v) ps)"

definition paramsFormat :: "(string \<times> jsval) list \<Rightarrow> string" where
  "paramsFormat json = URLSearchParams_toString (URLSearchParams json)"

section \<open>The header collection (lines 4-6)\<close>

datatype js_error = TypeError | URIError

text \<open>
  A \<^verbatim>\<open>Headers\<close> object is its header list. \<^verbatim>\<open>append(name, value)\<close> of the Fetch
  standard first converts both arguments to byte strings, which throws a \<^verbatim>\<open>TypeError\<close>
  on a code point above U+00FF; it then strips leading and trailing HTTP whitespace
  from the value, throws a \<^verbatim>\<open>TypeError\<close> unless the name is an HTTP token and the value
  has no NUL, CR or LF, reuses the casing of an entry already stored under the same
  name, and adds the pair at the end. \<^verbatim>\<open>get(name)\<close> compares names without regard to
  ASCII case and returns \<^verbatim>\<open>null\<close> (here \<open>None\<close>) when there is no entry.

  In well-formed UTF-8 the code points up to U+00FF are the bytes below 0x80 and the
  two-byte sequences that start with 0xC2 or 0xC3, so a string has a code point above
  U+00FF exactly when it has a byte from 0xC4 on. The collection keeps a value as the
  string that \<^verbatim>\<open>get\<close> gives back.
\<close>

type_synonym Headers = "(string \<times> string) list"

definition is_ByteString :: "string \<Rightarrow> bool" where
  "is_ByteString s = list_all (\<lambda>c. (of_char c :: nat) < 0xC4) s"

definition is_tchar :: "char \<Rightarrow> bool" where
  "is_tchar c = (is_alnum c \<or> List.member ''!#$%&*+-.^_`|~'' c \<or> of_char c = (39::nat))"

definition is_header_name :: "string \<Rightarrow> bool" where
  "is_header_name n = (n \<noteq> [] \<and> list_all is_tchar n)"

definition is_http_whitespace :: "char \<Rightarrow> bool" where
  "is_http_whitespace c = List.member [9, 10, 13, 32 :: nat] (of_char c)"

definition normalize_value :: "string \<Rightarrow> string" where
  "normalize_value v =
     rev (dropWhile is_http_whitespace (rev (dropWhile is_http_whitespace v)))"

definition is_header_value :: "string \<Rightarrow> bool" where
  "is_header_value v = list_all (\<lambda>c. \<not> List.member [0, 10, 13 :: nat] (of_char c)) v"

definition lower_char :: "char \<Rightarrow> char" where
  "lower_char c =
     (let n = (of_char c :: nat) in if 65 \<le> n \<and> n \<le> 90 then char_of (n + 32) else c)"

definition same_name :: "string \<Rightarrow> string \<Rightarrow> bool" where
  "same_name a b = (map lower_char a = map lower_char b)"

definition Headers_append :: "Headers \<Rightarrow> string \<Rightarrow> string \<Rightarrow> js_error + Headers" where
  "Headers_append hs name v =
     (let v' = normalize_value v
      in if is_ByteString name \<and> is_ByteString v \<and> is_header_name name \<and> is_header_value v'
         then (case find (\<lambda>(n, _). same_name n name) hs of
                 Some (n, _) \<Rightarrow> Inr (hs @ [(n, v')])
               | None \<Rightarrow> Inr (hs @ [(name, v')]))
         else Inl TypeError)"

definition Headers_get :: "Headers \<Rightarrow> string \<Rightarrow> string option" where
  "Headers_get hs name =
     (let vs = map snd (filter (\<lambda>(n, _). same_name n name) hs)
      in if vs = [] then None else Some (join '', '' vs))"

text \<open>\<^verbatim>\<open>new Headers(init)\<close> on a record appends its entries one by one.\<close>

fun Headers_fill :: "Headers \<Rightarrow> (string \<times> string) list \<Rightarrow> js_error + Headers" where
  "Headers_fill hs [] = Inr hs"
| "Headers_fill hs ((k, v) # kvs) =
     (case Headers_append hs k v of
        Inl e \<Rightarrow> Inl e
      | Inr hs' \<Rightarrow> Headers_fill hs' kvs)"

definition headers :: "(string \<times> string) list \<Rightarrow> js_error + Headers" where
  "headers init = Headers_fill [] init"

section \<open>Request parameters and options\<close>

text \<open>
  The \<^verbatim>\<open>params\<close> argument, with the field types of the doc comment at lines 35-41:
  \<^verbatim>\<open>{ query: Object, data: Object, headers: Object, timeout: Number }\<close>. An absent
  property reads as \<^verbatim>\<open>undefined\<close>: \<open>None\<close> for the objects and the number,
  \<open>JUndefined\<close> for \<^verbatim>\<open>data\<close>, which the code only tests for truthiness and hands to
  \<^verbatim>\<open>JSON.stringify\<close>. The fields of the three records below carry the prefixes
  \<open>p_\<close>, \<open>o_\<close> and \<open>req_\<close>, those of a response \<open>r_\<close>: \<^verbatim>\<open>params\<close> and the options
  both have a property \<^verbatim>\<open>headers\<close>, which is also the name of the helper at line 4.
\<close>

record params =
  p_query :: "(string \<times> jsval) list option"
  p_data :: jsval
  p_headers :: "(string \<times> string) list option"
  p_timeout :: "int option"

text \<open>The options object handed to \<^verbatim>\<open>fetch\<close>; an absent property is \<open>None\<close>
  (\<open>False\<close> for the abort signal). The body is of type \<open>'b\<close>: for \<^verbatim>\<open>fetchRequest\<close> the
  result of \<^verbatim>\<open>JSON.stringify\<close>, for \<^verbatim>\<open>fetchFormData\<close> the caller's payload.\<close>

record 'b options =
  o_method :: string
  o_headers :: Headers
  o_body :: "'b option"
  o_signal :: bool
  o_credentials :: string
  o_responseType :: "string option"

text \<open>What a call has prepared when it reaches \<^verbatim>\<open>fetch\<close>: the request URL, the
  options and the delay in milliseconds of the abort timer, if one was scheduled.\<close>

record 'b request =
  req_url :: string
  req_options :: "'b options"
  req_timer :: "int option"

definition baseURL :: string where
  "baseURL = []"

text \<open>
  The header merge, written three times in the source (lines 65-70, 111-116, 149-154):
  \<^verbatim>\<open>keys.forEach(item => options.headers.append(keys, params.headers[item]))\<close>.
  The first argument of \<^verbatim>\<open>append\<close> is the array \<^verbatim>\<open>keys\<close>, which the call converts to
  a string: the keys joined with commas. A property read of a missing key gives
  \<^verbatim>\<open>undefined\<close>, converted to the string \<^verbatim>\<open>undefined\<close>.
\<close>

definition get_prop :: "(string \<times> string) list \<Rightarrow> string \<Rightarrow> string" where
  "get_prop obj k = (case map_of obj k of None \<Rightarrow> ''undefined'' | Some v \<Rightarrow> v)"

fun forEach_append ::
  "string list \<Rightarrow> (string \<times> string) list \<Rightarrow> string list \<Rightarrow> Headers \<Rightarrow> js_error + Headers" where
  "forEach_append keys obj [] hs = Inr hs"
| "forEach_append keys obj (item # items) hs =
     (case Headers_append hs (join '','' keys) (get_prop obj item) of
        Inl e \<Rightarrow> Inl e
      | Inr hs' \<Rightarrow> forEach_append keys obj items hs')"

definition merge_headers :: "(string \<times> string) list option \<Rightarrow> Headers \<Rightarrow> js_error + Headers" where
  "merge_headers ph hs =
     (case ph of
        None \<Rightarrow> Inr hs
      | Some obj \<Rightarrow> (let keys = Object_keys obj in forEach_append keys obj keys hs))"

section \<open>JSON serialization\<close>

text \<open>
  \<^verbatim>\<open>JSON.stringify\<close> of ECMAScript on the values above: strings are quoted with the
  escapes of QuoteJSONString, \<^verbatim>\<open>undefined\<close> is \<^verbatim>\<open>null\<close> inside an array and leaves
  its property out of an object, and at the top level the result is \<^verbatim>\<open>undefined\<close>
  instead of a string (\<open>None\<close> of \<open>SerializeJSONProperty\<close>, \<open>JUndefined\<close> of
  \<open>JSON_stringify\<close>).
\<close>

definition backslash :: char where
  "backslash = CHR 0x5C"

definition dquote :: char where
  "dquote = CHR 0x22"

definition lower_hex_digit :: "nat \<Rightarrow> char" where
  "lower_hex_digit d = ''0123456789abcdef'' ! d"

definition json_escape_char :: "char \<Rightarrow> string" where
  "json_escape_char c =
     (let n = (of_char c :: nat)
      in if n = 0x22 then [backslash, dquote]
         else if n = 0x5C then [backslash, backslash]
         else if n = 0x08 then [backslash, CHR ''b'']
         else if n = 0x0C then [backslash, CHR ''f'']
         else if n = 0x0A then [backslash, CHR ''n'']
         else if n = 0x0D then [backslash, CHR ''r'']
         else if n = 0x09 then [backslash, CHR ''t'']
         else if n < 0x20
           then [backslash, CHR ''u'', CHR ''0'', CHR ''0'',
                 lower_hex_digit (n div 16), lower_hex_digit (n mod 16)]
         else [c])"

definition JSON_quote :: "string \<Rightarrow> string" where
  "JSON_quote s = dquote # concat (map json_escape_char s) @ [dquote]"

fun SerializeJSONProperty :: "jsval \<Rightarrow> string option"
  and SerializeJSONArray :: "jsval list \<Rightarrow> string list"
  and SerializeJSONObject :: "(string \<times> jsval) list \<Rightarrow> string list" where
  "SerializeJSONProperty JUndefined = None"
| "SerializeJSONProperty JNull = Some ''null''"
| "SerializeJSONProperty (JBool b) = Some (if b then ''true'' else ''false'')"
| "SerializeJSONProperty (JNum n) = Some (string_of_int n)"
| "SerializeJSONProperty (JStr s) = Some (JSON_quote s)"
| "SerializeJSONProperty (JArr xs) = Some (''['' @ join '','' (SerializeJSONArray xs) @ '']'')"
| "SerializeJSONProperty (JObj kvs) = Some (''{'' @ join '','' (SerializeJSONObject kvs) @ ''}'')"
| "SerializeJSONArray [] = []"
| "SerializeJSONArray (x # xs) =
     (case SerializeJSONProperty x of None \<Rightarrow> ''null'' | Some s \<Rightarrow> s) # SerializeJSONArray xs"
| "SerializeJSONObject [] = []"
| "SerializeJSONObject ((k, v) # kvs) =
     (case SerializeJSONProperty v of
        None \<Rightarrow> SerializeJSONObject kvs
      | Some s \<Rightarrow> (JSON_quote k @ '':'' @ s) # SerializeJSONObject kvs)"

definition JSON_stringify :: "jsval \<Rightarrow> jsval" where
  "JSON_stringify v = (case SerializeJSONProperty v of None \<Rightarrow> JUndefined | Some s \<Rightarrow> JStr s)"

section \<open>fetchRequest: building the request (lines 42-75)\<close>

text \<open>Lines 48-57: the options literal, with the JSON content type and the abort
  signal of the controller created at line 47.\<close>

definition fetchRequest_options :: "string \<Rightarrow> js_error + jsval options" where
  "fetchRequest_options method =
     (case headers [(''content-Type'', ''application/json'')] of
        Inl e \<Rightarrow> Inl e
      | Inr h \<Rightarrow> Inr \<lparr>o_method = method, o_headers = h, o_body = None, o_signal = True,
                     o_credentials = ''same-origin'', o_responseType = None\<rparr>)"

text \<open>Lines 58-61: \<^verbatim>\<open>url += queryString && `?${queryString}`\<close>. An empty query string
  is falsy, so \<^verbatim>\<open>&&\<close> yields it and nothing is added.\<close>

definition fetchRequest_url :: "string \<Rightarrow> params \<Rightarrow> string" where
  "fetchRequest_url url params =
     (case p_query params of
        None \<Rightarrow> url
      | Some q \<Rightarrow>
          (let queryString = paramsFormat q
           in url @ (if queryString = [] then queryString else ''?'' @ queryString)))"

text \<open>Lines 62-64.\<close>

definition fetchRequest_body :: "string \<Rightarrow> params \<Rightarrow> jsval options \<Rightarrow> jsval options" where
  "fetchRequest_body method params options =
     (if method \<noteq> ''get'' \<and> truthy (p_data params)
      then options\<lparr>o_body := Some (JSON_stringify (p_data params))\<rparr>
      else options)"

text \<open>Lines 71-74: \<^verbatim>\<open>params.timeout || 10\<close> takes 10 for every falsy timeout, which
  among numbers is 0 as well as an absent one; the timer runs for \<^verbatim>\<open>timeout * 1000\<close>
  milliseconds.\<close>

definition effective_timeout :: "params \<Rightarrow> int" where
  "effective_timeout params =
     (case p_timeout params of
        None \<Rightarrow> 10
      | Some t \<Rightarrow> if truthy (JNum t) then t else 10)"

definition fetchRequest_timer :: "params \<Rightarrow> int option" where
  "fetchRequest_timer params =
     (let timeout = effective_timeout params
      in if timeout > 0 then Some (timeout * 1000) else None)"

text \<open>The synchronous part of \<^verbatim>\<open>fetchRequest\<close>, in source order. A \<^verbatim>\<open>TypeError\<close> of
  the header collection leaves the function as an exception, before \<^verbatim>\<open>fetch\<close> is
  called and before the timer is set.\<close>

definition fetchRequest_prepare :: "string \<Rightarrow> string \<Rightarrow> params \<Rightarrow> js_error + jsval request" where
  "fetchRequest_prepare url method params =
     (case fetchRequest_options method of
        Inl e \<Rightarrow> Inl e
      | Inr options \<Rightarrow>
          (let url' = fetchRequest_url url params;
               options' = fetchRequest_body method params options
           in case merge_headers (p_headers params) (o_headers options') of
                Inl e \<Rightarrow> Inl e
              | Inr hs \<Rightarrow>
                  Inr \<lparr>req_url = baseURL @ url',
                       req_options = options'\<lparr>o_headers := hs\<rparr>,
                       req_timer = fetchRequest_timer params\<rparr>))"

section \<open>fetchFormData and fetchDownloadBlob: building the request\<close>

text \<open>Lines 108-110 and 146-148: \<^verbatim>\<open>url += `?${paramsFormat(params.query)}`\<close>, with no
  test of the query string.\<close>

definition fetchFormData_url :: "string \<Rightarrow> params \<Rightarrow> string" where
  "fetchFormData_url url params =
     (case p_query params of
        None \<Rightarrow> url
      | Some q \<Rightarrow> url @ ''?'' @ paramsFormat q)"

definition fetchFormData_prepare :: "string \<Rightarrow> 'd \<Rightarrow> params \<Rightarrow> js_error + 'd request" where
  "fetchFormData_prepare url data params =
     (case headers [] of
        Inl e \<Rightarrow> Inl e
      | Inr h \<Rightarrow>
          (let options = \<lparr>o_method = ''post'', o_headers = h, o_body = Some data,
                          o_signal = False, o_credentials = ''same-origin'',
                          o_responseType = None\<rparr>;
               url' = fetchFormData_url url params
           in case merge_headers (p_headers params) (o_headers options) of
                Inl e \<Rightarrow> Inl e
              | Inr hs \<Rightarrow>
                  Inr \<lparr>req_url = baseURL @ url',
                       req_options = options\<lparr>o_headers := hs\<rparr>,
                       req_timer = None\<rparr>))"

definition fetchDownloadBlob_prepare :: "string \<Rightarrow> params \<Rightarrow> js_error + unit request" where
  "fetchDownloadBlob_prepare url params =
     (case headers [] of
        Inl e \<Rightarrow> Inl e
      | Inr h \<Rightarrow>
          (let options = \<lparr>o_method = ''get'', o_headers = h, o_body = None,
                          o_signal = False, o_credentials = ''same-origin'',
                          o_responseType = Some ''arraybuffer''\<rparr>;
               url' = fetchFormData_url url params
           in case merge_headers (p_headers params) (o_headers options) of
                Inl e \<Rightarrow> Inl e
              | Inr hs \<Rightarrow>
                  Inr \<lparr>req_url = baseURL @ url',
                       req_options = options\<lparr>o_headers := hs\<rparr>,
                       req_timer = None\<rparr>))"

section \<open>Responses, the console and the interceptor (lines 16-33)\<close>

text \<open>
  A rejection reason or thrown value is an error object with its name and message, or
  a plain string (what \<^verbatim>\<open>interceptors\<close> throws). A response carries the fields the
  module reads: \<^verbatim>\<open>status\<close>, \<^verbatim>\<open>ok\<close>, the response headers, and how the promise of
  \<^verbatim>\<open>res.json()\<close> settles (it rejects on a body that is not JSON).
\<close>

datatype reason = ErrorObject string string | StringValue string

record response =
  r_status :: nat
  r_ok :: bool
  r_headers :: Headers
  r_json :: "reason + jsval"

datatype log_arg = AStr string | AReason reason

datatype log_entry = console_info "log_arg list" | console_error "log_arg list"

text \<open>The message literals of the source are Chinese text; they are given here by
  their UTF-8 bytes. Line 18 (U+8BF7 U+6C42 U+53C2 U+6570 U+9519 U+8BEF):\<close>

definition msg_400 :: string where
  "msg_400 = [CHR 0xE8, CHR 0xAF, CHR 0xB7, CHR 0xE6, CHR 0xB1, CHR 0x82, CHR 0xE5, CHR 0x8F,
     CHR 0x82, CHR 0xE6, CHR 0x95, CHR 0xB0, CHR 0xE9, CHR 0x94, CHR 0x99, CHR 0xE8, CHR 0xAF,
     CHR 0xAF]"

text \<open>Lines 19 and 28 (U+65E0 U+6743 U+8BBF U+95EE):\<close>

definition msg_403 :: string where
  "msg_403 = [CHR 0xE6, CHR 0x97, CHR 0xA0, CHR 0xE6, CHR 0x9D, CHR 0x83, CHR 0xE8, CHR 0xAE,
     CHR 0xBF, CHR 0xE9, CHR 0x97, CHR 0xAE]"

text \<open>Line 20 (U+8D44 U+6E90 U+4E0D U+5B58 U+5728):\<close>

definition msg_404 :: string where
  "msg_404 = [CHR 0xE8, CHR 0xB5, CHR 0x84, CHR 0xE6, CHR 0xBA, CHR 0x90, CHR 0xE4, CHR 0xB8,
     CHR 0x8D, CHR 0xE5, CHR 0xAD, CHR 0x98, CHR 0xE5, CHR 0x9C, CHR 0xA8]"

text \<open>Line 21 (U+8BF7 U+6C42 U+6587 U+4EF6 U+8FC7 U+5927):\<close>

definition msg_413 :: string where
  "msg_413 = [CHR 0xE8, CHR 0xAF, CHR 0xB7, CHR 0xE6, CHR 0xB1, CHR 0x82, CHR 0xE6, CHR 0x96,
     CHR 0x87, CHR 0xE4, CHR 0xBB, CHR 0xB6, CHR 0xE8, CHR 0xBF, CHR 0x87, CHR 0xE5, CHR 0xA4,
     CHR 0xA7]"

text \<open>Line 22 (U+670D U+52A1 U+5668 U+5185 U+90E8 U+9519 U+8BEF):\<close>

definition msg_500 :: string where
  "msg_500 = [CHR 0xE6, CHR 0x9C, CHR 0x8D, CHR 0xE5, CHR 0x8A, CHR 0xA1, CHR 0xE5, CHR 0x99,
     CHR 0xA8, CHR 0xE5, CHR 0x86, CHR 0x85, CHR 0xE9, CHR 0x83, CHR 0xA8, CHR 0xE9, CHR 0x94,
     CHR 0x99, CHR 0xE8, CHR 0xAF, CHR 0xAF]"

text \<open>Line 82, the label of a timed-out request (U+8BF7 U+6C42 U+8D85 U+65F6, colon,
  space), and lines 84 and 123, the label of any other error (U+8BF7 U+6C42 U+9519
  U+8BEF, colon, space):\<close>

definition label_timeout :: string where
  "label_timeout = [CHR 0xE8, CHR 0xAF, CHR 0xB7, CHR 0xE6, CHR 0xB1, CHR 0x82, CHR 0xE8,
     CHR 0xB6, CHR 0x85, CHR 0xE6, CHR 0x97, CHR 0xB6, CHR 0x3A, CHR 0x20]"

definition label_error :: string where
  "label_error = [CHR 0xE8, CHR 0xAF, CHR 0xB7, CHR 0xE6, CHR 0xB1, CHR 0x82, CHR 0xE9,
     CHR 0x94, CHR 0x99, CHR 0xE8, CHR 0xAF, CHR 0xAF, CHR 0x3A, CHR 0x20]"

definition errCodes :: "(nat \<times> string) list" where
  "errCodes = [(400, msg_400), (403, msg_403), (404, msg_404), (413, msg_413), (500, msg_500)]"

text \<open>What \<^verbatim>\<open>interceptors\<close> hands back: the promise of \<^verbatim>\<open>res.json()\<close>, or
  \<^verbatim>\<open>undefined\<close> when it falls off its end; or it throws a string.\<close>

datatype returned = JsonPromise "reason + jsval" | Undefined

datatype completion = Return returned | Throw string

definition interceptors :: "response \<Rightarrow> log_entry list \<Rightarrow> completion \<times> log_entry list" where
  "interceptors res console =
     (if r_status res \<noteq> 0 \<and> r_ok res then (Return (JsonPromise (r_json res)), console)
      else
        (let console' =
               (if r_status res = 403 then console @ [console_info [AStr msg_403]]
                else console)
         in case map_of errCodes (r_status res) of
              Some msg \<Rightarrow> (Throw msg, console')
            | None \<Rightarrow> (Return Undefined, console')))"

section \<open>The promise chains (lines 76-87 and 118-125)\<close>

datatype settled = Resolved jsval | Rejected reason

text \<open>\<^verbatim>\<open>.then(res => interceptors(res))\<close>: a rejected fetch passes through; a thrown
  string rejects the chain; a returned promise is adopted.\<close>

definition then_interceptors ::
  "reason + response \<Rightarrow> log_entry list \<Rightarrow> settled \<times> log_entry list" where
  "then_interceptors fetched console =
     (case fetched of
        Inl error \<Rightarrow> (Rejected error, console)
      | Inr res \<Rightarrow>
          (case interceptors res console of
             (Throw msg, console') \<Rightarrow> (Rejected (StringValue msg), console')
           | (Return Undefined, console') \<Rightarrow> (Resolved JUndefined, console')
           | (Return (JsonPromise (Inl error)), console') \<Rightarrow> (Rejected error, console')
           | (Return (JsonPromise (Inr v)), console') \<Rightarrow> (Resolved v, console')))"

text \<open>\<^verbatim>\<open>String.prototype.includes\<close>.\<close>

fun String_includes :: "string \<Rightarrow> string \<Rightarrow> bool" where
  "String_includes [] t = (t = [])"
| "String_includes (c # cs) t = (take (length t) (c # cs) = t \<or> String_includes cs t)"

text \<open>\<^verbatim>\<open>error?.message\<close>: a string has no such property.\<close>

fun message :: "reason \<Rightarrow> string option" where
  "message (ErrorObject name msg) = Some msg"
| "message (StringValue s) = None"

definition user_aborted :: "reason \<Rightarrow> bool" where
  "user_aborted error =
     (case message error of
        None \<Rightarrow> False
      | Some msg \<Rightarrow> String_includes msg ''The user aborted a request'')"

text \<open>The two \<^verbatim>\<open>catch\<close> handlers log and return nothing, so the chain resolves with
  \<^verbatim>\<open>undefined\<close>.\<close>

definition catch_fetchRequest ::
  "string \<Rightarrow> settled \<times> log_entry list \<Rightarrow> settled \<times> log_entry list" where
  "catch_fetchRequest reqUrl chain =
     (case chain of
        (Resolved v, console) \<Rightarrow> (Resolved v, console)
      | (Rejected error, console) \<Rightarrow>
          (Resolved JUndefined,
           console @ [if user_aborted error
                      then console_error [AStr label_timeout, AStr reqUrl]
                      else console_error [AStr label_error, AReason error]]))"

definition catch_fetchFormData :: "settled \<times> log_entry list \<Rightarrow> settled \<times> log_entry list" where
  "catch_fetchFormData chain =
     (case chain of
        (Resolved v, console) \<Rightarrow> (Resolved v, console)
      | (Rejected error, console) \<Rightarrow>
          (Resolved JUndefined, console @ [console_error [AStr label_error, AReason error]]))"

text \<open>The promise that a call returns, lines 76-87 and 118-125: it depends on the
  request URL (for the log), on how the platform settles the fetch, and on the console
  so far.\<close>

definition fetchRequest_chain ::
  "string \<Rightarrow> reason + response \<Rightarrow> log_entry list \<Rightarrow> settled \<times> log_entry list" where
  "fetchRequest_chain reqUrl fetched console =
     catch_fetchRequest reqUrl (then_interceptors fetched console)"

definition fetchFormData_chain ::
  "reason + response \<Rightarrow> log_entry list \<Rightarrow> settled \<times> log_entry list" where
  "fetchFormData_chain fetched console = catch_fetchFormData (then_interceptors fetched console)"

text \<open>
  The whole call. \<open>fetch\<close> is the platform: how it settles the request it is given.
  The result is \<open>Inl\<close> when the call throws instead of returning a promise, and
  otherwise how the returned promise settles; the second component is the console.
\<close>

definition fetchRequest ::
  "string \<Rightarrow> string \<Rightarrow> params \<Rightarrow> (jsval request \<Rightarrow> reason + response) \<Rightarrow> log_entry list
     \<Rightarrow> (js_error + settled) \<times> log_entry list" where
  "fetchRequest url method params fetch console =
     (case fetchRequest_prepare url method params of
        Inl e \<Rightarrow> (Inl e, console)
      | Inr rq \<Rightarrow>
          (case fetchRequest_chain (req_url rq) (fetch rq) console of
             (p, console') \<Rightarrow> (Inr p, console')))"

definition fetchFormData ::
  "string \<Rightarrow> 'd \<Rightarrow> params \<Rightarrow> ('d request \<Rightarrow> reason + response) \<Rightarrow> log_entry list
     \<Rightarrow> (js_error + settled) \<times> log_entry list" where
  "fetchFormData url data params fetch console =
     (case fetchFormData_prepare url data params of
        Inl e \<Rightarrow> (Inl e, console)
      | Inr rq \<Rightarrow>
          (case fetchFormData_chain (fetch rq) console of
             (p, console') \<Rightarrow> (Inr p, console')))"

section \<open>The name of a downloaded file (lines 156-164)\<close>

text \<open>
  \<^verbatim>\<open>decodeURI\<close> is the Decode operation of ECMAScript with the reserved set
  \<^verbatim>\<open>; / ? : @ & = + $ , #\<close>: an escape \<^verbatim>\<open>%XX\<close> of an ASCII character is replaced by
  the character unless it is reserved; an escape whose octet starts a UTF-8 sequence
  must be followed by the escapes of the remaining octets, and the sequence must be
  valid UTF-8; anything else is a \<^verbatim>\<open>URIError\<close>. On byte strings the decoded code
  point is the sequence of its octets.
\<close>

definition hex_value :: "char \<Rightarrow> nat option" where
  "hex_value c =
     (let n = (of_char c :: nat)
      in if 48 \<le> n \<and> n \<le> 57 then Some (n - 48)
         else if 65 \<le> n \<and> n \<le> 70 then Some (n - 55)
         else if 97 \<le> n \<and> n \<le> 102 then Some (n - 87)
         else None)"

fun escape_octet :: "string \<Rightarrow> (nat \<times> string) option" where
  "escape_octet (p # a # b # rest) =
     (if p = CHR ''%''
      then (case hex_value a of
              None \<Rightarrow> None
            | Some x \<Rightarrow> (case hex_value b of None \<Rightarrow> None | Some y \<Rightarrow> Some (16 * x + y, rest)))
      else None)"
| "escape_octet s = None"

fun continuation_octets :: "nat \<Rightarrow> string \<Rightarrow> (nat list \<times> string) option" where
  "continuation_octets 0 s = Some ([], s)"
| "continuation_octets (Suc j) s =
     (case escape_octet s of
        None \<Rightarrow> None
      | Some (b, rest) \<Rightarrow>
          (case continuation_octets j rest of
             None \<Rightarrow> None
           | Some (bs, rest') \<Rightarrow> Some (b # bs, rest')))"

definition leading_ones :: "nat \<Rightarrow> nat" where
  "leading_ones b =
     (if b < 128 then 0 else if b < 192 then 1 else if b < 224 then 2
      else if b < 240 then 3 else if b < 248 then 4 else if b < 252 then 5
      else if b < 254 then 6 else if b < 255 then 7 else 8)"

definition utf8_code_point :: "nat \<Rightarrow> nat list \<Rightarrow> nat" where
  "utf8_code_point b conts =
     fold (\<lambda>c acc. acc * 64 + c mod 64) conts (b mod 2 ^ (7 - leading_ones b))"

definition valid_utf8 :: "nat \<Rightarrow> nat list \<Rightarrow> bool" where
  "valid_utf8 b conts =
     (let n = leading_ones b; cp = utf8_code_point b conts
      in list_all (\<lambda>c. 128 \<le> c \<and> c < 192) conts \<and>
         (if n = 2 then 0x80 \<le> cp
          else if n = 3 then 0x800 \<le> cp \<and> (cp < 0xD800 \<or> 0xDFFF < cp)
          else 0x10000 \<le> cp \<and> cp \<le> 0x10FFFF))"

lemma escape_octet_shorter: "escape_octet s = Some (b, rest) \<Longrightarrow> length rest < length s"
  by (induction s rule: escape_octet.induct) (auto split: if_splits option.splits)

lemma continuation_octets_shorter:
  "continuation_octets j s = Some (bs, rest) \<Longrightarrow> length rest \<le> length s"
proof (induction j arbitrary: s bs rest)
  case 0
  then show ?case by simp
next
  case (Suc j)
  from Suc.prems obtain b r bs' where e: "escape_octet s = Some (b, r)"
    and c: "continuation_octets j r = Some (bs', rest)"
    by (auto split: option.splits)
  from Suc.IH [OF c] escape_octet_shorter [OF e] show ?case by simp
qed

function decodeURI :: "string \<Rightarrow> js_error + string" where
  "decodeURI [] = Inr []"
| "decodeURI (c # cs) =
     (if c \<noteq> CHR ''%'' then (case decodeURI cs of Inl e \<Rightarrow> Inl e | Inr r \<Rightarrow> Inr (c # r))
      else
        (case escape_octet (c # cs) of
           None \<Rightarrow> Inl URIError
         | Some (b, rest) \<Rightarrow>
             (if leading_ones b = 0
              then (case decodeURI rest of
                      Inl e \<Rightarrow> Inl e
                    | Inr r \<Rightarrow>
                        Inr ((if List.member '';/?:@&=+$,#'' (char_of b) then take 3 (c # cs)
                              else [char_of b]) @ r))
              else if leading_ones b = 1 \<or> 4 < leading_ones b then Inl URIError
              else
                (case continuation_octets (leading_ones b - 1) rest of
                   None \<Rightarrow> Inl URIError
                 | Some (conts, rest') \<Rightarrow>
                     (if valid_utf8 b conts
                      then (case decodeURI rest' of
                              Inl e \<Rightarrow> Inl e
                            | Inr r \<Rightarrow> Inr (map char_of (b # conts) @ r))
                      else Inl URIError)))))"
  by pat_completeness auto
termination
proof (relation "measure length")
  show "wf (measure length)" by simp
next
  fix c :: char and cs :: string
  show "(cs, c # cs) \<in> measure length" by simp
next
  fix c :: char and cs :: string and x2 :: "nat \<times> string" and b :: nat and rest :: string
  assume "escape_octet (c # cs) = Some x2" and "(b, rest) = x2"
  then have "escape_octet (c # cs) = Some (b, rest)" by simp
  from escape_octet_shorter [OF this] show "(rest, c # cs) \<in> measure length" by simp
next
  fix c :: char and cs :: string and x2 :: "nat \<times> string" and b :: nat and rest :: string
    and x2a :: "nat list \<times> string" and conts :: "nat list" and rest' :: string
  assume "escape_octet (c # cs) = Some x2" and "(b, rest) = x2"
    and "continuation_octets (leading_ones b - 1) rest = Some x2a" and "(conts, rest') = x2a"
  then have e: "escape_octet (c # cs) = Some (b, rest)"
    and k: "continuation_octets (leading_ones b - 1) rest = Some (conts, rest')"
    by simp_all
  from escape_octet_shorter [OF e] continuation_octets_shorter [OF k]
  show "(rest', c # cs) \<in> measure length" by simp
qed

declare decodeURI.simps [simp del]

text \<open>The name under which the file is saved: a string, or the number of
  \<^verbatim>\<open>new Date().getTime()\<close>, here the parameter \<open>now\<close>.\<close>

datatype file_name = Name string | Time int

text \<open>Lines 159-161: \<^verbatim>\<open>decodeURI(res.headers.get('Content-Disposition')) || new
  Date().getTime()\<close>. \<^verbatim>\<open>decodeURI\<close> converts its argument to a string first, the
  \<^verbatim>\<open>null\<close> of an absent header included; \<^verbatim>\<open>||\<close> takes the time only for the empty
  string. A \<^verbatim>\<open>URIError\<close> rejects the chain, which the final \<^verbatim>\<open>catch\<close> discards.\<close>

definition fetchDownloadBlob_fileName :: "response \<Rightarrow> int \<Rightarrow> js_error + file_name" where
  "fetchDownloadBlob_fileName res now =
     (case decodeURI (case Headers_get (r_headers res) ''Content-Disposition'' of
                        None \<Rightarrow> ToString JNull
                      | Some v \<Rightarrow> v) of
        Inl e \<Rightarrow> Inl e
      | Inr s \<Rightarrow> Inr (if s \<noteq> [] then Name s else Time now))"

section \<open>Default arguments and example inputs\<close>

text \<open>The default of \<^verbatim>\<open>params\<close> at line 45, and the one at lines 99 and 136 (which has
  neither \<^verbatim>\<open>data\<close> nor \<^verbatim>\<open>timeout\<close>). A default replaces the whole argument: a
  caller's own \<^verbatim>\<open>params\<close> has only the properties the caller wrote.\<close>

definition fetchRequest_default_params :: params where
  "fetchRequest_default_params =
     \<lparr>p_query = Some [], p_data = JObj [], p_headers = Some [], p_timeout = Some 10\<rparr>"

definition fetchFormData_default_params :: params where
  "fetchFormData_default_params =
     \<lparr>p_query = Some [], p_data = JUndefined, p_headers = Some [], p_timeout = None\<rparr>"

definition example_params :: params where
  "example_params =
     \<lparr>p_query = Some [(''page'', JNum 1)], p_data = JObj [(''a'', JNum 1)],
      p_headers = Some [(''X-Token'', ''abc'')], p_timeout = None\<rparr>"

text \<open>A header whose value is the one character U+4E2D, in UTF-8 the bytes E4 B8 AD.\<close>

definition wide_header_params :: params where
  "wide_header_params =
     \<lparr>p_query = None, p_data = JUndefined,
      p_headers = Some [(''X-City'', [CHR 0xE4, CHR 0xB8, CHR 0xAD])], p_timeout = None\<rparr>"

definition example_form :: "(string \<times> string) list" where
  "example_form = [(''file'', ''report.csv'')]"

text \<open>Two ways the platform can settle a request: a network failure, and a response
  200 with a JSON body.\<close>

definition fetch_fails :: "'b request \<Rightarrow> reason + response" where
  "fetch_fails rq = Inl (ErrorObject ''TypeError'' ''Failed to fetch'')"

definition fetch_200 :: "'b request \<Rightarrow> reason + response" where
  "fetch_200 rq =
     Inr \<lparr>r_status = 200, r_ok = True, r_headers = [], r_json = Inr (JObj [(''id'', JNum 7)])\<rparr>"

section \<open>Facts about the building blocks\<close>

lemma headers_json:
  "headers [(''content-Type'', ''application/json'')] =
     Inr [(''content-Type'', ''application/json'')]"
  by (simp add: headers_def Headers_append_def is_ByteString_def is_header_name_def is_tchar_def is_alnum_def
      is_header_value_def normalize_value_def is_http_whitespace_def)

lemma headers_empty: "headers [] = Inr []"
  by (simp add: headers_def)

lemma fetchRequest_options_eq:
  "fetchRequest_options method =
     Inr \<lparr>o_method = method, o_headers = [(''content-Type'', ''application/json'')],
          o_body = None, o_signal = True, o_credentials = ''same-origin'',
          o_responseType = None\<rparr>"
  by (simp add: fetchRequest_options_def headers_json)

lemma errCodes_lookup:
  "map_of errCodes s =
     (if s = 400 then Some msg_400 else if s = 403 then Some msg_403
      else if s = 404 then Some msg_404 else if s = 413 then Some msg_413
      else if s = 500 then Some msg_500 else None)"
  by (simp add: errCodes_def)

lemma fetchRequest_prepare_body:
  assumes "fetchRequest_prepare url method params = Inr rq"
  shows "o_body (req_options rq) =
     o_body (fetchRequest_body method params
       \<lparr>o_method = method, o_headers = [(''content-Type'', ''application/json'')],
        o_body = None, o_signal = True, o_credentials = ''same-origin'',
        o_responseType = None\<rparr>)"
  using assms
  by (auto simp add: fetchRequest_prepare_def fetchRequest_options_eq Let_def split: sum.splits)

lemma JSON_stringify_truthy: "truthy v \<Longrightarrow> \<exists>s. JSON_stringify v = JStr s"
  by (cases v) (simp_all add: JSON_stringify_def)

lemma example_prepare:
  "fetchRequest_prepare ''/api/items'' method example_params =
     Inr \<lparr>req_url = ''/api/items?page=1'',
          req_options = fetchRequest_body method example_params
            \<lparr>o_method = method,
             o_headers = [(''content-Type'', ''application/json''), (''X-Token'', ''abc'')],
             o_body = None, o_signal = True, o_credentials = ''same-origin'',
             o_responseType = None\<rparr>,
          req_timer = Some 10000\<rparr>"
  by (simp add: fetchRequest_prepare_def fetchRequest_options_eq fetchRequest_url_def
      fetchRequest_body_def merge_headers_def fetchRequest_timer_def effective_timeout_def
      baseURL_def example_params_def Object_keys_def get_prop_def
      Headers_append_def is_ByteString_def is_header_name_def is_tchar_def is_alnum_def
      is_header_value_def normalize_value_def is_http_whitespace_def same_name_def lower_char_def
      paramsFormat_def URLSearchParams_def URLSearchParams_toString_def urlencode_def
      urlencode_char_def string_of_int_def string_of_nat.simps digit_char_def)

lemma example_form_prepare:
  "fetchFormData_prepare ''/upload'' example_form example_params =
     Inr \<lparr>req_url = ''/upload?page=1'',
          req_options =
            \<lparr>o_method = ''post'', o_headers = [(''X-Token'', ''abc'')],
             o_body = Some example_form, o_signal = False, o_credentials = ''same-origin'',
             o_responseType = None\<rparr>,
          req_timer = None\<rparr>"
  by (simp add: fetchFormData_prepare_def headers_empty fetchFormData_url_def
      merge_headers_def baseURL_def example_params_def Object_keys_def get_prop_def
      Headers_append_def is_ByteString_def is_header_name_def is_tchar_def is_alnum_def
      is_header_value_def normalize_value_def is_http_whitespace_def
      paramsFormat_def URLSearchParams_def URLSearchParams_toString_def urlencode_def
      urlencode_char_def string_of_int_def string_of_nat.simps digit_char_def)

text \<open>Both stages of a chain only add to the console.\<close>

lemma interceptors_console: "\<exists>c. snd (interceptors res console) = console @ c"
  by (simp add: interceptors_def Let_def split: option.splits)

lemma then_interceptors_console: "\<exists>c. snd (then_interceptors fetched console) = console @ c"
proof (cases fetched)
  case (Inl error)
  then show ?thesis by (simp add: then_interceptors_def)
next
  case (Inr res)
  obtain k c where i: "interceptors res console = (k, console @ c)"
    using interceptors_console [of res console] by (cases "interceptors res console") auto
  show ?thesis
    using Inr i
    by (simp add: then_interceptors_def split: completion.splits returned.splits sum.splits)
qed

text \<open>A chain resolves, whatever the fetch did. When it was rejected before its
  \<^verbatim>\<open>catch\<close>, the handler's \<^verbatim>\<open>console.error\<close> is the last entry and the value is
  \<^verbatim>\<open>undefined\<close>; otherwise the handler adds nothing.\<close>

lemma fetchRequest_chain_resolves:
  "\<exists>v c. fetchRequest_chain reqUrl fetched console = (Resolved v, console @ c) \<and>
     (\<forall>e. fst (then_interceptors fetched console) = Rejected e \<longrightarrow>
        v = JUndefined \<and> c \<noteq> [] \<and>
        last c = (if user_aborted e then console_error [AStr label_timeout, AStr reqUrl]
                  else console_error [AStr label_error, AReason e])) \<and>
     (\<forall>v'. fst (then_interceptors fetched console) = Resolved v' \<longrightarrow>
        v = v' \<and> snd (then_interceptors fetched console) = console @ c)"
proof -
  obtain p c1 where t: "then_interceptors fetched console = (p, console @ c1)"
    using then_interceptors_console [of fetched console]
    by (cases "then_interceptors fetched console") auto
  show ?thesis
  proof (cases p)
    case (Resolved v')
    with t show ?thesis
      by (simp add: fetchRequest_chain_def catch_fetchRequest_def)
  next
    case (Rejected e)
    with t have "fetchRequest_chain reqUrl fetched console =
        (Resolved JUndefined,
         console @ (c1 @ [if user_aborted e then console_error [AStr label_timeout, AStr reqUrl]
                          else console_error [AStr label_error, AReason e]]))"
      by (simp add: fetchRequest_chain_def catch_fetchRequest_def)
    with t Rejected show ?thesis
      by (intro exI [of _ JUndefined]
          exI [of _ "c1 @ [if user_aborted e then console_error [AStr label_timeout, AStr reqUrl]
                           else console_error [AStr label_error, AReason e]]"]) simp
  qed
qed

lemma fetchFormData_chain_resolves:
  "\<exists>v c. fetchFormData_chain fetched console = (Resolved v, console @ c) \<and>
     (\<forall>e. fst (then_interceptors fetched console) = Rejected e \<longrightarrow>
        v = JUndefined \<and> c \<noteq> [] \<and> last c = console_error [AStr label_error, AReason e]) \<and>
     (\<forall>v'. fst (then_interceptors fetched console) = Resolved v' \<longrightarrow>
        v = v' \<and> snd (then_interceptors fetched console) = console @ c)"
proof -
  obtain p c1 where t: "then_interceptors fetched console = (p, console @ c1)"
    using then_interceptors_console [of fetched console]
    by (cases "then_interceptors fetched console") auto
  show ?thesis
  proof (cases p)
    case (Resolved v')
    with t show ?thesis
      by (simp add: fetchFormData_chain_def catch_fetchFormData_def)
  next
    case (Rejected e)
    with t have "fetchFormData_chain fetched console =
        (Resolved JUndefined, console @ (c1 @ [console_error [AStr label_error, AReason e]]))"
      by (simp add: fetchFormData_chain_def catch_fetchFormData_def)
    with t Rejected show ?thesis
      by (intro exI [of _ JUndefined]
          exI [of _ "c1 @ [console_error [AStr label_error, AReason e]]"]) simp
  qed
qed

text \<open>A call that reaches \<^verbatim>\<open>fetch\<close> returns the chain of its request.\<close>

lemma fetchRequest_returns_chain:
  assumes "fetchRequest_prepare url method params = Inr rq"
  shows "\<exists>v c. fetchRequest url method params fetch console = (Inr (Resolved v), c) \<and>
     fetchRequest_chain (req_url rq) (fetch rq) console = (Resolved v, c)"
proof -
  obtain v c where "fetchRequest_chain (req_url rq) (fetch rq) console = (Resolved v, console @ c)"
    using fetchRequest_chain_resolves [of "req_url rq" "fetch rq" console] by blast
  with assms show ?thesis
    by (simp add: fetchRequest_def)
qed

lemma fetchFormData_returns_chain:
  assumes "fetchFormData_prepare url data params = Inr rq"
  shows "\<exists>v c. fetchFormData url data params fetch console = (Inr (Resolved v), c) \<and>
     fetchFormData_chain (fetch rq) console = (Resolved v, c)"
proof -
  obtain v c where "fetchFormData_chain (fetch rq) console = (Resolved v, console @ c)"
    using fetchFormData_chain_resolves [of "fetch rq" console] by blast
  with assms show ?thesis
    by (simp add: fetchFormData_def)
qed

lemma is_header_name_ByteString: "is_header_name k \<Longrightarrow> is_ByteString k"
proof -
  have "is_tchar c \<Longrightarrow> (of_char c :: nat) < 0xC4" for c
    by (auto simp add: is_tchar_def is_alnum_def Let_def)
  then show "is_header_name k \<Longrightarrow> is_ByteString k"
    by (simp add: is_header_name_def is_ByteString_def list_all_iff)
qed

section \<open>The claims\<close>

subsection \<open>C1: the abort timer\<close>

text \<open>
  Claim C1: a call of \<^verbatim>\<open>fetchRequest\<close> with \<^verbatim>\<open>params.timeout\<close> equal to 0 schedules no
  abort timer; the timer is scheduled only when the effective timeout is greater than
  0, and an absent timeout means 10 seconds.

  The guard \<^verbatim>\<open>timeout > 0\<close> at line 72 is there, but line 71 has replaced a timeout of
  0 by the default before the guard reads it, \<^verbatim>\<open>0 || 10\<close> being 10. The call below,
  with \<^verbatim>\<open>timeout: 0\<close>, reaches \<^verbatim>\<open>fetch\<close> with the abort scheduled after 10000
  milliseconds.
\<close>

theorem timeout_zero_schedules_timer:
  "fetchRequest_prepare ''/api/items'' ''get''
     \<lparr>p_query = None, p_data = JUndefined, p_headers = None, p_timeout = Some 0\<rparr> =
   Inr \<lparr>req_url = ''/api/items'',
        req_options =
          \<lparr>o_method = ''get'', o_headers = [(''content-Type'', ''application/json'')],
           o_body = None, o_signal = True, o_credentials = ''same-origin'',
           o_responseType = None\<rparr>,
        req_timer = Some 10000\<rparr>"
  by (simp add: fetchRequest_prepare_def fetchRequest_options_eq fetchRequest_url_def
      fetchRequest_body_def merge_headers_def fetchRequest_timer_def effective_timeout_def
      baseURL_def)

subsection \<open>C2: the caller's headers\<close>

text \<open>
  Claim C2: every pair of a non-empty \<^verbatim>\<open>params.headers\<close> is appended to the request's
  header collection under its own key, in \<^verbatim>\<open>fetchRequest\<close>, \<^verbatim>\<open>fetchFormData\<close> and
  \<^verbatim>\<open>fetchDownloadBlob\<close>.

  The loop passes the array \<^verbatim>\<open>keys\<close>, not the key \<^verbatim>\<open>item\<close>, as the name. With the
  two headers below the name is \<^verbatim>\<open>X-Token,X-Lang\<close>, which is no header name: the
  first \<^verbatim>\<open>append\<close> throws, nothing is stored under either key, and each of the three
  functions ends with the \<^verbatim>\<open>TypeError\<close> before it calls \<^verbatim>\<open>fetch\<close>.
\<close>

theorem two_headers_not_appended:
  "fetchRequest_prepare ''/api/items'' ''get''
     \<lparr>p_query = None, p_data = JUndefined,
      p_headers = Some [(''X-Token'', ''abc''), (''X-Lang'', ''en'')], p_timeout = None\<rparr> =
     Inl TypeError \<and>
   fetchFormData_prepare ''/upload'' example_form
     \<lparr>p_query = None, p_data = JUndefined,
      p_headers = Some [(''X-Token'', ''abc''), (''X-Lang'', ''en'')], p_timeout = None\<rparr> =
     Inl TypeError \<and>
   fetchDownloadBlob_prepare ''/export''
     \<lparr>p_query = None, p_data = JUndefined,
      p_headers = Some [(''X-Token'', ''abc''), (''X-Lang'', ''en'')], p_timeout = None\<rparr> =
     Inl TypeError"
  by (simp add: fetchRequest_prepare_def fetchRequest_options_eq fetchRequest_url_def
      fetchRequest_body_def fetchFormData_prepare_def fetchDownloadBlob_prepare_def
      fetchFormData_url_def headers_empty merge_headers_def Object_keys_def
      Headers_append_def is_ByteString_def is_header_name_def is_tchar_def is_alnum_def)

subsection \<open>C3: query formatting\<close>

text \<open>
  Claim C3: \<^verbatim>\<open>paramsFormat\<close> drops the entries whose value is \<^verbatim>\<open>undefined\<close> or
  \<^verbatim>\<open>null\<close>, and every other pair appears once, percent-encoded. The doc comment at
  line 10 promises the same exclusion.

  \<^verbatim>\<open>URLSearchParams\<close> converts every value to a string and drops nothing: the two
  entries below appear as \<^verbatim>\<open>a=undefined\<close> and \<^verbatim>\<open>b=null\<close>.
\<close>

theorem paramsFormat_keeps_undefined_and_null:
  "paramsFormat [(''a'', JUndefined), (''b'', JNull), (''page'', JNum 1)] =
     ''a=undefined&b=null&page=1''"
  by (simp add: paramsFormat_def URLSearchParams_def URLSearchParams_toString_def urlencode_def
      urlencode_char_def is_alnum_def string_of_int_def string_of_nat.simps digit_char_def)

subsection \<open>C4: the name of the saved file\<close>

text \<open>
  Claim C4: when the response has no \<^verbatim>\<open>Content-Disposition\<close> header,
  \<^verbatim>\<open>fetchDownloadBlob\<close> names the file by the current timestamp; when it has one, by
  the URI-decoded header value.

  The fallback \<^verbatim>\<open>|| new Date().getTime()\<close> is written at line 161, but
  \<^verbatim>\<open>decodeURI\<close> has turned the \<^verbatim>\<open>null\<close> of the absent header into the string
  \<^verbatim>\<open>null\<close>, which is truthy: the response below, with no such header, gives the
  file the name \<^verbatim>\<open>null\<close> and the timestamp is not used.
\<close>

theorem absent_disposition_names_file_null:
  "fetchDownloadBlob_fileName
     \<lparr>r_status = 200, r_ok = True, r_headers = [(''content-type'', ''text/csv'')],
      r_json = Inl (ErrorObject ''SyntaxError'' ''Unexpected token'')\<rparr> 1700000000000 =
   Inr (Name ''null'')"
  by (simp add: fetchDownloadBlob_fileName_def Headers_get_def same_name_def lower_char_def
      decodeURI.simps)

subsection \<open>C5: the returned promise\<close>

text \<open>
  Claim C5: for every input and every outcome of the underlying fetch, the promises
  returned by \<^verbatim>\<open>fetchRequest\<close> and \<^verbatim>\<open>fetchFormData\<close> resolve and never reject; every
  error is logged and swallowed, and the resolved value is then \<^verbatim>\<open>undefined\<close>.

  This holds of every call that reaches \<^verbatim>\<open>fetch\<close>, and of no other. Neither function
  guards the statements before \<^verbatim>\<open>fetch\<close>, so an exception raised there, by
  \<^verbatim>\<open>Headers.append\<close>, by \<^verbatim>\<open>JSON.stringify\<close> or by the query serializer, leaves the
  function as it is and no promise is returned; a header name with a space in it is
  enough, as the last theorem of this subsection shows.

  As amended: the promise chain of either function resolves for every request URL,
  every way the fetch settles and every console, hence for every call that reaches
  \<^verbatim>\<open>fetch\<close>; the console only grows; when the chain was rejected before its \<^verbatim>\<open>catch\<close>
  with a reason, the resolved value is \<^verbatim>\<open>undefined\<close> and the last entry logged is the
  handler's \<^verbatim>\<open>console.error\<close> (for \<^verbatim>\<open>fetchRequest\<close> the timeout label with the URL when
  the reason's message says the user aborted, the error label with the reason
  otherwise; for \<^verbatim>\<open>fetchFormData\<close> always the latter); when it was not rejected, its
  value is the resolved value and the handler logs nothing. A call that reaches
  \<^verbatim>\<open>fetch\<close> returns that chain; a call that throws before \<^verbatim>\<open>fetch\<close> throws the same
  exception to its caller and logs nothing.
\<close>

theorem promise_resolves_once_fetch_is_called:
  "(\<exists>v c. fetchRequest_chain reqUrl fetched console = (Resolved v, console @ c) \<and>
      (\<forall>e. fst (then_interceptors fetched console) = Rejected e \<longrightarrow>
         v = JUndefined \<and> c \<noteq> [] \<and>
         last c = (if user_aborted e then console_error [AStr label_timeout, AStr reqUrl]
                   else console_error [AStr label_error, AReason e])) \<and>
      (\<forall>v'. fst (then_interceptors fetched console) = Resolved v' \<longrightarrow>
         v = v' \<and> snd (then_interceptors fetched console) = console @ c)) \<and>
   (\<exists>v c. fetchFormData_chain fetched console = (Resolved v, console @ c) \<and>
      (\<forall>e. fst (then_interceptors fetched console) = Rejected e \<longrightarrow>
         v = JUndefined \<and> c \<noteq> [] \<and> last c = console_error [AStr label_error, AReason e]) \<and>
      (\<forall>v'. fst (then_interceptors fetched console) = Resolved v' \<longrightarrow>
         v = v' \<and> snd (then_interceptors fetched console) = console @ c)) \<and>
   (\<forall>rq. fetchRequest_prepare url method params = Inr rq \<longrightarrow>
      (\<exists>v c. fetchRequest url method params fetch console = (Inr (Resolved v), c) \<and>
         fetchRequest_chain (req_url rq) (fetch rq) console = (Resolved v, c))) \<and>
   (\<forall>rq. fetchFormData_prepare url' data params' = Inr rq \<longrightarrow>
      (\<exists>v c. fetchFormData url' data params' fetch' console = (Inr (Resolved v), c) \<and>
         fetchFormData_chain (fetch' rq) console = (Resolved v, c))) \<and>
   (\<forall>e. fetchRequest_prepare url method params = Inl e \<longrightarrow>
      fetchRequest url method params fetch console = (Inl e, console)) \<and>
   (\<forall>e. fetchFormData_prepare url' data params' = Inl e \<longrightarrow>
      fetchFormData url' data params' fetch' console = (Inl e, console))"
proof (intro conjI allI impI)
  show "\<exists>v c. fetchRequest_chain reqUrl fetched console = (Resolved v, console @ c) \<and>
      (\<forall>e. fst (then_interceptors fetched console) = Rejected e \<longrightarrow>
         v = JUndefined \<and> c \<noteq> [] \<and>
         last c = (if user_aborted e then console_error [AStr label_timeout, AStr reqUrl]
                   else console_error [AStr label_error, AReason e])) \<and>
      (\<forall>v'. fst (then_interceptors fetched console) = Resolved v' \<longrightarrow>
         v = v' \<and> snd (then_interceptors fetched console) = console @ c)"
    by (rule fetchRequest_chain_resolves)
next
  show "\<exists>v c. fetchFormData_chain fetched console = (Resolved v, console @ c) \<and>
      (\<forall>e. fst (then_interceptors fetched console) = Rejected e \<longrightarrow>
         v = JUndefined \<and> c \<noteq> [] \<and> last c = console_error [AStr label_error, AReason e]) \<and>
      (\<forall>v'. fst (then_interceptors fetched console) = Resolved v' \<longrightarrow>
         v = v' \<and> snd (then_interceptors fetched console) = console @ c)"
    by (rule fetchFormData_chain_resolves)
next
  fix rq
  assume "fetchRequest_prepare url method params = Inr rq"
  then show "\<exists>v c. fetchRequest url method params fetch console = (Inr (Resolved v), c) \<and>
      fetchRequest_chain (req_url rq) (fetch rq) console = (Resolved v, c)"
    by (rule fetchRequest_returns_chain)
next
  fix rq
  assume "fetchFormData_prepare url' data params' = Inr rq"
  then show "\<exists>v c. fetchFormData url' data params' fetch' console = (Inr (Resolved v), c) \<and>
      fetchFormData_chain (fetch' rq) console = (Resolved v, c)"
    by (rule fetchFormData_returns_chain)
next
  fix e
  assume "fetchRequest_prepare url method params = Inl e"
  then show "fetchRequest url method params fetch console = (Inl e, console)"
    by (simp add: fetchRequest_def)
next
  fix e
  assume "fetchFormData_prepare url' data params' = Inl e"
  then show "fetchFormData url' data params' fetch' console = (Inl e, console)"
    by (simp add: fetchFormData_def)
qed

text \<open>The theorem at a call of each function that reaches \<^verbatim>\<open>fetch\<close>, where the network
  fails, and at a call of each that throws before it, on a header value with a code
  point above U+00FF (U+4E2D, the bytes E4 B8 AD).\<close>

theorem promise_resolves_witness:
  "fetchRequest_prepare ''/api/items'' ''post'' example_params =
     Inr \<lparr>req_url = ''/api/items?page=1'',
          req_options = fetchRequest_body ''post'' example_params
            \<lparr>o_method = ''post'',
             o_headers = [(''content-Type'', ''application/json''), (''X-Token'', ''abc'')],
             o_body = None, o_signal = True, o_credentials = ''same-origin'',
             o_responseType = None\<rparr>,
          req_timer = Some 10000\<rparr> \<and>
   fst (then_interceptors (Inl (ErrorObject ''TypeError'' ''Failed to fetch'')) []) =
     Rejected (ErrorObject ''TypeError'' ''Failed to fetch'') \<and>
   fetchRequest ''/api/items'' ''post'' example_params fetch_fails [] =
     (Inr (Resolved JUndefined),
      [console_error [AStr label_error, AReason (ErrorObject ''TypeError'' ''Failed to fetch'')]]) \<and>
   fetchFormData_prepare ''/upload'' example_form example_params =
     Inr \<lparr>req_url = ''/upload?page=1'',
          req_options =
            \<lparr>o_method = ''post'', o_headers = [(''X-Token'', ''abc'')],
             o_body = Some example_form, o_signal = False, o_credentials = ''same-origin'',
             o_responseType = None\<rparr>,
          req_timer = None\<rparr> \<and>
   fetchFormData ''/upload'' example_form example_params fetch_fails [] =
     (Inr (Resolved JUndefined),
      [console_error [AStr label_error, AReason (ErrorObject ''TypeError'' ''Failed to fetch'')]]) \<and>
   fetchRequest_prepare ''/api/items'' ''post'' wide_header_params = Inl TypeError \<and>
   fetchRequest ''/api/items'' ''post'' wide_header_params fetch_200 [] = (Inl TypeError, []) \<and>
   fetchFormData_prepare ''/upload'' example_form wide_header_params = Inl TypeError \<and>
   fetchFormData ''/upload'' example_form wide_header_params fetch_200 [] = (Inl TypeError, [])"
proof -
  have w1: "fetchRequest_prepare ''/api/items'' ''post'' wide_header_params = Inl TypeError"
    by (simp add: wide_header_params_def fetchRequest_prepare_def fetchRequest_options_eq
        fetchRequest_url_def fetchRequest_body_def merge_headers_def Object_keys_def get_prop_def
        Headers_append_def is_ByteString_def)
  have w2: "fetchFormData_prepare ''/upload'' example_form wide_header_params = Inl TypeError"
    by (simp add: wide_header_params_def fetchFormData_prepare_def headers_empty
        fetchFormData_url_def merge_headers_def Object_keys_def get_prop_def
        Headers_append_def is_ByteString_def)
  have r: "fst (then_interceptors (Inl (ErrorObject ''TypeError'' ''Failed to fetch'')) []) =
      Rejected (ErrorObject ''TypeError'' ''Failed to fetch'')"
    by (simp add: then_interceptors_def)
  from promise_resolves_once_fetch_is_called
    [of "''/api/items?page=1''" "Inl (ErrorObject ''TypeError'' ''Failed to fetch'')" "[]"
        "''/api/items''" "''post''" example_params fetch_fails
        "''/upload''" example_form example_params fetch_fails]
  have a: "fetchRequest ''/api/items'' ''post'' example_params fetch_fails [] =
      (Inr (Resolved JUndefined),
       [console_error [AStr label_error, AReason (ErrorObject ''TypeError'' ''Failed to fetch'')]])"
    and b: "fetchFormData ''/upload'' example_form example_params fetch_fails [] =
      (Inr (Resolved JUndefined),
       [console_error [AStr label_error, AReason (ErrorObject ''TypeError'' ''Failed to fetch'')]])"
    by (simp_all add: example_prepare example_form_prepare fetchRequest_def fetchFormData_def
        fetchRequest_chain_def fetchFormData_chain_def then_interceptors_def fetch_fails_def
        catch_fetchRequest_def catch_fetchFormData_def user_aborted_def)
  from promise_resolves_once_fetch_is_called
    [of "''/api/items''" "Inl (ErrorObject ''TypeError'' ''Failed to fetch'')" "[]" "''/api/items''" "''post''" wide_header_params
        fetch_200 "''/upload''" example_form wide_header_params fetch_200] w1 w2
  have c: "fetchRequest ''/api/items'' ''post'' wide_header_params fetch_200 [] =
      (Inl TypeError, [])"
    and d: "fetchFormData ''/upload'' example_form wide_header_params fetch_200 [] =
      (Inl TypeError, [])"
    by blast+
  from a b c d w1 w2 r show ?thesis
    by (simp add: example_prepare example_form_prepare)
qed

theorem bad_header_name_throws:
  "fst (fetchRequest ''/api/items'' ''get''
          \<lparr>p_query = None, p_data = JUndefined, p_headers = Some [(''bad name'', ''x'')],
           p_timeout = None\<rparr> fetch_200 []) = Inl TypeError"
  by (simp add: fetchRequest_def fetchRequest_prepare_def fetchRequest_options_eq
      fetchRequest_url_def fetchRequest_body_def merge_headers_def Object_keys_def
      Headers_append_def is_ByteString_def is_header_name_def is_tchar_def is_alnum_def)

subsection \<open>C6: the interceptor on a response that is not ok\<close>

text \<open>
  Claim C6: on a response that does not have both a truthy status and \<^verbatim>\<open>ok\<close>,
  \<^verbatim>\<open>interceptors\<close> throws exactly when the status is one of 400, 403, 404, 413 and
  500, and then throws the message of that status; for 403 it first logs the message
  with \<^verbatim>\<open>console.info\<close>; for any other status it returns \<^verbatim>\<open>undefined\<close> and logs
  nothing.
\<close>

theorem interceptors_not_ok:
  assumes "\<not> (r_status res \<noteq> 0 \<and> r_ok res)"
  shows "interceptors res console =
     (if r_status res = 400 then (Throw msg_400, console)
      else if r_status res = 403 then (Throw msg_403, console @ [console_info [AStr msg_403]])
      else if r_status res = 404 then (Throw msg_404, console)
      else if r_status res = 413 then (Throw msg_413, console)
      else if r_status res = 500 then (Throw msg_500, console)
      else (Return Undefined, console))"
  using assms by (auto simp add: interceptors_def errCodes_lookup)

theorem interceptors_not_ok_witness:
  "\<not> (r_status \<lparr>r_status = 404, r_ok = False, r_headers = [], r_json = Inr JNull\<rparr> \<noteq> 0 \<and>
       r_ok \<lparr>r_status = 404, r_ok = False, r_headers = [], r_json = Inr JNull\<rparr>) \<and>
   interceptors \<lparr>r_status = 404, r_ok = False, r_headers = [], r_json = Inr JNull\<rparr> [] =
     (Throw msg_404, [])"
  using interceptors_not_ok
    [of "\<lparr>r_status = 404, r_ok = False, r_headers = [], r_json = Inr JNull\<rparr>" "[]"]
  by simp

subsection \<open>C7: the interceptor on an ok response\<close>

text \<open>
  Claim C7: on a response with a truthy status and \<^verbatim>\<open>ok\<close> set, \<^verbatim>\<open>interceptors\<close> returns
  what \<^verbatim>\<open>res.json()\<close> gives, the parsed JSON body, unchanged; it throws nothing and
  logs nothing.
\<close>

theorem interceptors_ok:
  assumes "r_status res \<noteq> 0" and "r_ok res"
  shows "interceptors res console = (Return (JsonPromise (r_json res)), console)"
  using assms by (simp add: interceptors_def)

theorem interceptors_ok_witness:
  "r_status \<lparr>r_status = 200, r_ok = True, r_headers = [],
             r_json = Inr (JObj [(''id'', JNum 7)])\<rparr> \<noteq> 0 \<and>
   r_ok \<lparr>r_status = 200, r_ok = True, r_headers = [], r_json = Inr (JObj [(''id'', JNum 7)])\<rparr> \<and>
   interceptors
     \<lparr>r_status = 200, r_ok = True, r_headers = [], r_json = Inr (JObj [(''id'', JNum 7)])\<rparr> [] =
     (Return (JsonPromise (Inr (JObj [(''id'', JNum 7)]))), [])"
  using interceptors_ok
    [of "\<lparr>r_status = 200, r_ok = True, r_headers = [], r_json = Inr (JObj [(''id'', JNum 7)])\<rparr>"
        "[]"]
  by simp

subsection \<open>C8: the request URL of fetchFormData\<close>

text \<open>
  Claim C8: \<^verbatim>\<open>fetchFormData\<close> appends the query to the URL by the rule of
  \<^verbatim>\<open>fetchRequest\<close>, so that both produce the same request URL from the same
  \<^verbatim>\<open>url\<close> and \<^verbatim>\<open>params.query\<close>, and neither adds anything when the formatted query
  string is empty.

  \<^verbatim>\<open>fetchRequest\<close> tests the query string at line 60; \<^verbatim>\<open>fetchFormData\<close> at line 109
  does not and always adds the question mark. With the empty query of its own default
  \<^verbatim>\<open>params\<close> the two URLs differ.
\<close>

theorem empty_query_urls_differ:
  "fetchRequest_url ''/upload'' fetchFormData_default_params = ''/upload'' \<and>
   fetchFormData_url ''/upload'' fetchFormData_default_params = ''/upload?'' \<and>
   map_sum id req_url (fetchRequest_prepare ''/upload'' ''post'' fetchFormData_default_params) =
     Inr ''/upload'' \<and>
   map_sum id req_url (fetchFormData_prepare ''/upload'' example_form fetchFormData_default_params) =
     Inr ''/upload?''"
  by (simp add: fetchRequest_prepare_def fetchRequest_options_eq fetchRequest_url_def
      fetchRequest_body_def fetchFormData_prepare_def fetchFormData_default_params_def
      fetchFormData_url_def headers_empty merge_headers_def Object_keys_def baseURL_def
      paramsFormat_def URLSearchParams_def URLSearchParams_toString_def)

subsection \<open>C9: no body on get\<close>

text \<open>
  Claim C9: a call of \<^verbatim>\<open>fetchRequest\<close> with the method \<^verbatim>\<open>get\<close> never puts a body
  into the request options, whatever \<^verbatim>\<open>params.data\<close> is: lines 62-64 leave the options
  as they are, and the options that reach \<^verbatim>\<open>fetch\<close> have no body.
\<close>

theorem get_never_has_body:
  "o_body (fetchRequest_body ''get'' params options) = o_body options \<and>
   (\<forall>rq. fetchRequest_prepare url ''get'' params = Inr rq \<longrightarrow> o_body (req_options rq) = None)"
proof
  show "o_body (fetchRequest_body ''get'' params options) = o_body options"
    by (simp add: fetchRequest_body_def)
next
  show "\<forall>rq. fetchRequest_prepare url ''get'' params = Inr rq \<longrightarrow> o_body (req_options rq) = None"
  proof (intro allI impI)
    fix rq
    assume "fetchRequest_prepare url ''get'' params = Inr rq"
    from fetchRequest_prepare_body [OF this] show "o_body (req_options rq) = None"
      by (simp add: fetchRequest_body_def)
  qed
qed

theorem get_never_has_body_witness:
  "truthy (p_data example_params) \<and>
   fetchRequest_prepare ''/api/items'' ''get'' example_params =
     Inr \<lparr>req_url = ''/api/items?page=1'',
          req_options =
            \<lparr>o_method = ''get'',
             o_headers = [(''content-Type'', ''application/json''), (''X-Token'', ''abc'')],
             o_body = None, o_signal = True, o_credentials = ''same-origin'',
             o_responseType = None\<rparr>,
          req_timer = Some 10000\<rparr>"
proof -
  have t: "truthy (p_data example_params)"
    by (simp add: example_params_def)
  obtain rq where p: "fetchRequest_prepare ''/api/items'' ''get'' example_params = Inr rq"
    by (simp add: example_prepare)
  from get_never_has_body [of example_params "req_options rq" "''/api/items''"] p
  have "o_body (req_options rq) = None" by blast
  with p t show ?thesis
    by (simp add: example_prepare fetchRequest_body_def)
qed

subsection \<open>C10: the body on every other method\<close>

text \<open>
  Claim C10: the comparison of the method at line 62 is case-sensitive. For a truthy
  \<^verbatim>\<open>params.data\<close> and any method other than the very string \<^verbatim>\<open>get\<close>, \<^verbatim>\<open>GET\<close>
  included, lines 62-64 set the body to \<^verbatim>\<open>JSON.stringify(params.data)\<close>, which is a
  string, and that is the body of the options that reach \<^verbatim>\<open>fetch\<close>.
\<close>

theorem body_is_json_unless_get:
  assumes "method \<noteq> ''get''" and "truthy (p_data params)"
  shows "o_body (fetchRequest_body method params options) =
      Some (JSON_stringify (p_data params)) \<and>
    (\<exists>s. JSON_stringify (p_data params) = JStr s) \<and>
    (\<forall>rq. fetchRequest_prepare url method params = Inr rq \<longrightarrow>
       o_body (req_options rq) = Some (JSON_stringify (p_data params)))"
proof (intro conjI allI impI)
  show "o_body (fetchRequest_body method params options) = Some (JSON_stringify (p_data params))"
    using assms by (simp add: fetchRequest_body_def)
next
  show "\<exists>s. JSON_stringify (p_data params) = JStr s"
    using assms(2) by (rule JSON_stringify_truthy)
next
  fix rq
  assume "fetchRequest_prepare url method params = Inr rq"
  from fetchRequest_prepare_body [OF this]
  show "o_body (req_options rq) = Some (JSON_stringify (p_data params))"
    using assms by (simp add: fetchRequest_body_def)
qed

theorem body_is_json_unless_get_witness:
  "''GET'' \<noteq> ''get'' \<and> truthy (p_data example_params) \<and>
   fetchRequest_prepare ''/api/items'' ''GET'' example_params =
     Inr \<lparr>req_url = ''/api/items?page=1'',
          req_options =
            \<lparr>o_method = ''GET'',
             o_headers = [(''content-Type'', ''application/json''), (''X-Token'', ''abc'')],
             o_body = Some (JStr [CHR ''{'', CHR 0x22, CHR ''a'', CHR 0x22, CHR '':'', CHR ''1'',
                                  CHR ''}'']),
             o_signal = True, o_credentials = ''same-origin'',
             o_responseType = None\<rparr>,
          req_timer = Some 10000\<rparr>"
proof -
  have m: "''GET'' \<noteq> ''get''" by simp
  have t: "truthy (p_data example_params)"
    by (simp add: example_params_def)
  have j: "JSON_stringify (p_data example_params) =
      JStr [CHR ''{'', CHR 0x22, CHR ''a'', CHR 0x22, CHR '':'', CHR ''1'', CHR ''}'']"
    by (simp add: example_params_def JSON_stringify_def JSON_quote_def json_escape_char_def
        dquote_def string_of_int_def string_of_nat.simps digit_char_def)
  obtain rq where p: "fetchRequest_prepare ''/api/items'' ''GET'' example_params = Inr rq"
    by (simp add: example_prepare)
  from body_is_json_unless_get [OF m t, of "req_options rq" "''/api/items''"] p
  have "o_body (req_options rq) = Some (JSON_stringify (p_data example_params))" by blast
  with p m t j show ?thesis
    by (simp add: example_prepare fetchRequest_body_def)
qed

section \<open>What the code does where it departs from the claims\<close>

subsection \<open>X1: the timer and the effective timeout\<close>

text \<open>
  X1: the abort timer of \<^verbatim>\<open>fetchRequest\<close> is scheduled exactly when the effective timeout
  \<^verbatim>\<open>params.timeout || 10\<close> is greater than 0, for that many seconds. An absent timeout
  and a timeout of 0 both give the effective timeout 10, hence a timer of 10000
  milliseconds; a negative timeout schedules none.
\<close>

theorem timer_follows_effective_timeout:
  "fetchRequest_timer params =
     (if 0 < effective_timeout params then Some (effective_timeout params * 1000) else None) \<and>
   effective_timeout (params\<lparr>p_timeout := None\<rparr>) = 10 \<and>
   effective_timeout (params\<lparr>p_timeout := Some 0\<rparr>) = 10 \<and>
   fetchRequest_timer (params\<lparr>p_timeout := None\<rparr>) = Some 10000 \<and>
   fetchRequest_timer (params\<lparr>p_timeout := Some (- 1)\<rparr>) = None"
  by (simp add: fetchRequest_timer_def effective_timeout_def)

subsection \<open>X2: where the two URL rules agree\<close>

text \<open>
  X2: \<^verbatim>\<open>fetchFormData\<close> and \<^verbatim>\<open>fetchRequest\<close> build the same URL from the same \<^verbatim>\<open>url\<close>
  and \<^verbatim>\<open>params.query\<close> whenever the query is absent or its formatted string is not
  empty.
\<close>

theorem urls_agree_unless_query_string_empty:
  assumes "p_query params = None \<or> (\<exists>q. p_query params = Some q \<and> paramsFormat q \<noteq> [])"
  shows "fetchFormData_url url params = fetchRequest_url url params"
  using assms by (auto simp add: fetchFormData_url_def fetchRequest_url_def Let_def)

theorem urls_agree_witness:
  "paramsFormat [(''page'', JNum 1)] \<noteq> [] \<and>
   fetchFormData_url ''/upload'' example_params = ''/upload?page=1'' \<and>
   fetchRequest_url ''/upload'' example_params = ''/upload?page=1''"
proof -
  have q: "paramsFormat [(''page'', JNum 1)] = ''page=1''"
    by (simp add: paramsFormat_def URLSearchParams_def URLSearchParams_toString_def urlencode_def
        urlencode_char_def is_alnum_def string_of_int_def string_of_nat.simps digit_char_def)
  then have "p_query example_params = None \<or>
      (\<exists>q. p_query example_params = Some q \<and> paramsFormat q \<noteq> [])"
    by (simp add: example_params_def)
  from urls_agree_unless_query_string_empty [OF this, of "''/upload''"] q
  show ?thesis
    by (simp add: fetchRequest_url_def example_params_def)
qed

subsection \<open>X3: a single caller header\<close>

text \<open>
  X3: when \<^verbatim>\<open>params.headers\<close> has exactly one entry, the array \<^verbatim>\<open>keys\<close> converts to
  that entry's key, and the header merge appends the entry under its own key, with the
  value stripped of surrounding whitespace, provided the key is a header name, the
  value has no code point above U+00FF and is a header value, and no entry of that
  name is in the collection yet.
\<close>

theorem single_header_appended_under_its_key:
  assumes "is_header_name k" and "is_ByteString v" and "is_header_value (normalize_value v)"
    and "find (\<lambda>(n, _). same_name n k) hs = None"
  shows "merge_headers (Some [(k, v)]) hs = Inr (hs @ [(k, normalize_value v)])"
  using assms is_header_name_ByteString [of k]
  by (simp add: merge_headers_def Object_keys_def get_prop_def Headers_append_def)

theorem single_header_witness:
  "is_header_name ''X-Token'' \<and> is_ByteString '' abc'' \<and>
   is_header_value (normalize_value '' abc'') \<and>
   merge_headers (Some [(''X-Token'', '' abc'')]) [(''content-Type'', ''application/json'')] =
     Inr [(''content-Type'', ''application/json''), (''X-Token'', ''abc'')]"
proof -
  have n: "is_header_name ''X-Token''"
    by (simp add: is_header_name_def is_tchar_def is_alnum_def)
  have w: "normalize_value '' abc'' = ''abc''"
    by (simp add: normalize_value_def is_http_whitespace_def)
  have v: "is_header_value (normalize_value '' abc'')"
    by (simp add: w is_header_value_def)
  have f: "find (\<lambda>(n, _). same_name n ''X-Token'') [(''content-Type'', ''application/json'')] = None"
    by (simp add: same_name_def)
  have b: "is_ByteString '' abc''"
    by (simp add: is_ByteString_def)
  from single_header_appended_under_its_key [OF n b v f] n b v w show ?thesis
    by simp
qed

subsection \<open>X4: the file name without a Content-Disposition header\<close>

text \<open>
  X4: for every response without a \<^verbatim>\<open>Content-Disposition\<close> header and at every time,
  \<^verbatim>\<open>fetchDownloadBlob\<close> names the file \<^verbatim>\<open>null\<close>.
\<close>

theorem absent_disposition_always_null:
  assumes "Headers_get (r_headers res) ''Content-Disposition'' = None"
  shows "fetchDownloadBlob_fileName res now = Inr (Name ''null'')"
  using assms by (simp add: fetchDownloadBlob_fileName_def decodeURI.simps)

theorem absent_disposition_witness:
  "Headers_get [] ''Content-Disposition'' = None \<and>
   fetchDownloadBlob_fileName
     \<lparr>r_status = 200, r_ok = True, r_headers = [], r_json = Inr JNull\<rparr> 0 = Inr (Name ''null'')"
proof -
  have h: "Headers_get (r_headers \<lparr>r_status = 200, r_ok = True, r_headers = [], r_json = Inr JNull\<rparr>)
      ''Content-Disposition'' = None"
    by (simp add: Headers_get_def)
  from absent_disposition_always_null [OF h, of 0] h show ?thesis
    by simp
qed

subsection \<open>X5: the file name with a Content-Disposition header\<close>

text \<open>
  X5: when the response has a \<^verbatim>\<open>Content-Disposition\<close> header whose value decodes to a
  non-empty string, that string is the file name; when it decodes to the empty string,
  the time is; when it does not decode, the \<^verbatim>\<open>URIError\<close> ends the step.
\<close>

theorem present_disposition_decoded:
  assumes "Headers_get (r_headers res) ''Content-Disposition'' = Some v"
  shows "fetchDownloadBlob_fileName res now =
     (case decodeURI v of
        Inl e \<Rightarrow> Inl e
      | Inr s \<Rightarrow> Inr (if s \<noteq> [] then Name s else Time now))"
  using assms by (simp add: fetchDownloadBlob_fileName_def)

theorem present_disposition_witness:
  "Headers_get [(''content-disposition'', ''a%20b.csv'')] ''Content-Disposition'' =
     Some ''a%20b.csv'' \<and>
   fetchDownloadBlob_fileName
     \<lparr>r_status = 200, r_ok = True, r_headers = [(''content-disposition'', ''a%20b.csv'')],
      r_json = Inr JNull\<rparr> 0 = Inr (Name ''a b.csv'')"
proof -
  have s: "same_name ''content-disposition'' ''Content-Disposition''"
    by code_simp
  have h: "Headers_get
      (r_headers \<lparr>r_status = 200, r_ok = True,
                  r_headers = [(''content-disposition'', ''a%20b.csv'')], r_json = Inr JNull\<rparr>)
      ''Content-Disposition'' = Some ''a%20b.csv''"
    by (simp add: Headers_get_def s)
  have d: "decodeURI ''a%20b.csv'' = Inr ''a b.csv''"
    by code_simp
  from present_disposition_decoded [OF h, of 0] h d show ?thesis
    by simp
qed

subsection \<open>X6: when a chain is rejected before its catch\<close>

text \<open>
  X6: the chain \<^verbatim>\<open>fetch(...).then(res => interceptors(res))\<close> is rejected with a
  reason exactly when the fetch was rejected with it (network failure or abort), or the
  response had a truthy status and \<^verbatim>\<open>ok\<close> and \<^verbatim>\<open>res.json()\<close> was rejected with it, or
  the response was not so and the reason is the message of its mapped status.
\<close>

theorem then_interceptors_rejected_iff:
  "fst (then_interceptors fetched console) = Rejected e \<longleftrightarrow>
     fetched = Inl e \<or>
     (\<exists>res. fetched = Inr res \<and>
        (if r_status res \<noteq> 0 \<and> r_ok res then r_json res = Inl e
         else \<exists>msg. map_of errCodes (r_status res) = Some msg \<and> e = StringValue msg))"
  by (cases fetched)
     (auto simp add: then_interceptors_def interceptors_def Let_def split: option.splits sum.splits)

end
